theory Spec2Isabelle
  imports Main
begin

section \<open>Data model of the GitHub provider\<close>

text \<open>
  The provider of \<^verbatim>\<open>src/lib/github_provider.ts\<close> throws with \<^verbatim>\<open>new Error(msg)\<close>
  in \<^verbatim>\<open>gitFetch\<close> and with \<^verbatim>\<open>new ValidationError(msg)\<close> in \<^verbatim>\<open>isOutdated\<close>.
  \<open>Error\<close> carries the message of the generic JavaScript error. The message of a
  \<open>ValidationError\<close> is built from colour helpers and a URL of the runtime; the model
  keeps the version it complains about. \<open>TypeError\<close> is the runtime's own error when
  a value that is not an array is used as one.
\<close>

datatype error = Error string | ValidationError string | TypeError

text \<open>
  What \<^verbatim>\<open>response.json()\<close> yields, typed \<^verbatim>\<open>GithubResponse & T\<close> in the source:
  either the array \<open>T\<close> that the endpoint promises (\<open>Payload\<close>), or a JSON object
  whose fields are strings, the shape of \<^verbatim>\<open>GithubResponse\<close> (\<open>Object\<close>).
  An array has neither a \<^verbatim>\<open>message\<close> nor a \<^verbatim>\<open>documentation_url\<close> property.
\<close>

datatype 'a json = Payload 'a | Object "string \<rightharpoonup> string"

record 'a response =
  status :: nat
  body :: "'a json"

record tag_ref =
  ref :: string

record branch =
  name :: string
  protected :: bool

text \<open>
  \<^verbatim>\<open>GithubVersions\<close>. The field \<^verbatim>\<open>latest\<close> is \<^verbatim>\<open>tagNames[0]\<close>, which is
  \<^verbatim>\<open>undefined\<close> for an empty array: \<open>None\<close> here.
\<close>

record github_versions =
  versions :: "string list"
  latest :: "string option"
  tags :: "string list"
  branches :: "string list"

section \<open>Fetching\<close>

definition fetch_failed_message :: string where
  "fetch_failed_message = ''couldn't fetch versions - try again after sometime''"

text \<open>
  \<^verbatim>\<open>gitFetch\<close>, from the response on: the request it sends (URL, headers, token) has
  no part in what follows. A status of \<open>0\<close> is the only number that is falsy.
\<close>

definition gitFetch :: "'a response \<Rightarrow> error + 'a json" where
  "gitFetch response =
     (if status response = 0 then Inl (Error fetch_failed_message)
      else case body response of
        Payload d \<Rightarrow> Inr (Payload d)
      | Object obj \<Rightarrow>
          (case (obj ''message'', obj ''documentation_url'') of
             (Some m, Some u) \<Rightarrow> Inl (Error (m @ '' '' @ u))
           | _ \<Rightarrow> Inr (Object obj)))"

section \<open>Version lists\<close>

text \<open>\<^verbatim>\<open>tag.ref.replace(/^refs\/tags\//, "")\<close>: the prefix goes when the string starts
  with it, and the string is unchanged otherwise.\<close>

definition strip_ref :: "string \<Rightarrow> string" where
  "strip_ref s = (if take 10 s = ''refs/tags/'' then drop 10 s else s)"

text \<open>The comparator given to \<^verbatim>\<open>sort\<close>.\<close>

definition branch_compare :: "branch \<Rightarrow> branch \<Rightarrow> int" where
  "branch_compare a b =
     (if protected a = protected b then 0 else (if protected a then 1 else -1))"

text \<open>
  \<^verbatim>\<open>Array.prototype.sort\<close> is a stable sort by the comparator: elements that
  compare as equal keep their order. It is modelled by insertion from the right, where
  an element goes in front of the first one it does not compare greater than.
\<close>

fun insert_by :: "('a \<Rightarrow> 'a \<Rightarrow> int) \<Rightarrow> 'a \<Rightarrow> 'a list \<Rightarrow> 'a list" where
  "insert_by cmp x [] = [x]"
| "insert_by cmp x (y # ys) =
     (if cmp x y \<le> 0 then x # y # ys else y # insert_by cmp x ys)"

definition js_sort :: "('a \<Rightarrow> 'a \<Rightarrow> int) \<Rightarrow> 'a list \<Rightarrow> 'a list" where
  "js_sort cmp xs = foldr (insert_by cmp) xs []"

text \<open>The template \<^verbatim>\<open>`${tag.name} ${tag.protected ? `(${bold("Protected")})` : ""}`\<close>.
  \<open>bold\<close> is the colour helper of the runtime library, a parameter of the model.\<close>

definition branch_label :: "(string \<Rightarrow> string) \<Rightarrow> branch \<Rightarrow> string" where
  "branch_label bold b =
     name b @ '' '' @ (if protected b then ''('' @ bold ''Protected'' @ '')'' else '''')"

text \<open>
  \<^verbatim>\<open>getVersions\<close>, given the responses of the two requests, which are taken to
  arrive together. \<^verbatim>\<open>Promise.all\<close> rejects with the error of the call to
  \<^verbatim>\<open>gitFetch\<close> that throws first. The tag request is started first, and the test of
  the status comes before \<^verbatim>\<open>await response.json()\<close>: so when both calls throw, the
  error is the one of the tag request, unless that one throws on its payload and the
  branch request has no status. A fetched body that is not an array has no
  \<^verbatim>\<open>map\<close> or \<^verbatim>\<open>sort\<close> method, and calling it is a \<open>TypeError\<close>.
\<close>

definition getVersions ::
  "(string \<Rightarrow> string) \<Rightarrow> tag_ref list response \<Rightarrow> branch list response \<Rightarrow> string
     \<Rightarrow> error + github_versions" where
  "getVersions bold tagsResponse branchesResponse nm =
     (case gitFetch tagsResponse of
        Inl e \<Rightarrow>
          (case gitFetch branchesResponse of
             Inl e' \<Rightarrow>
               if status tagsResponse \<noteq> 0 \<and> status branchesResponse = 0
               then Inl e' else Inl e
           | Inr _ \<Rightarrow> Inl e)
      | Inr fetchedTags \<Rightarrow>
     (case gitFetch branchesResponse of
        Inl e \<Rightarrow> Inl e
      | Inr fetchedBranches \<Rightarrow>
     (case fetchedTags of
        Object _ \<Rightarrow> Inl TypeError
      | Payload tagList \<Rightarrow>
     (case fetchedBranches of
        Object _ \<Rightarrow> Inl TypeError
      | Payload branchList \<Rightarrow>
          (let tagNames = rev (map (\<lambda>tag. strip_ref (ref tag)) tagList);
               branchNames =
                 rev (map (branch_label bold) (js_sort branch_compare branchList))
           in Inr \<lparr> versions = tagNames @ branchNames,
                    latest = (case tagNames of [] \<Rightarrow> None | t # _ \<Rightarrow> Some t),
                    tags = tagNames,
                    branches = branchNames \<rparr>)))))"

text \<open>A response with a status and the promised array as its body.\<close>

definition ok :: "'a \<Rightarrow> 'a response" where
  "ok d = \<lparr> status = 200, body = Payload d \<rparr>"

section \<open>The outdatedness check\<close>

text \<open>Truthiness of a value that is a string or \<^verbatim>\<open>undefined\<close>: a string that is not
  empty.\<close>

definition truthy :: "string option \<Rightarrow> bool" where
  "truthy s = (case s of None \<Rightarrow> False | Some t \<Rightarrow> t \<noteq> [])"

text \<open>\<^verbatim>\<open>versions.includes(targetVersion)\<close>; \<^verbatim>\<open>undefined\<close> is no element of an
  array of strings.\<close>

definition js_includes :: "string list \<Rightarrow> string option \<Rightarrow> bool" where
  "js_includes xs t = (case t of None \<Rightarrow> False | Some s \<Rightarrow> s \<in> set xs)"

text \<open>The first statement of \<^verbatim>\<open>isOutdated\<close>: the target \<^verbatim>\<open>"latest"\<close> becomes
  the field \<^verbatim>\<open>latest\<close>.\<close>

definition resolve_target :: "github_versions \<Rightarrow> string \<Rightarrow> string option" where
  "resolve_target v targetVersion =
     (if targetVersion = ''latest'' then latest v else Some targetVersion)"

text \<open>
  \<^verbatim>\<open>isOutdated\<close>. The two warnings written to the console before
  \<^verbatim>\<open>return false\<close> are not part of the result.
\<close>

definition isOutdated ::
  "(string \<Rightarrow> string) \<Rightarrow> tag_ref list response \<Rightarrow> branch list response
     \<Rightarrow> string \<Rightarrow> string \<Rightarrow> string \<Rightarrow> error + bool" where
  "isOutdated bold tagsResponse branchesResponse nm currentVersion targetVersion =
     (case getVersions bold tagsResponse branchesResponse nm of
        Inl e \<Rightarrow> Inl e
      | Inr v \<Rightarrow>
          (let target = resolve_target v targetVersion in
           if truthy target \<and> \<not> js_includes (versions v) target
             then Inl (ValidationError (case target of Some t \<Rightarrow> t | None \<Rightarrow> []))
           else if truthy (latest v) \<and> latest v = Some currentVersion \<and> latest v = target
             then Inr False
           else if truthy target \<and> Some currentVersion = target
             then Inr False
           else Inr True))"

section \<open>The upgrade stub and the command's action\<close>

record upgrade_options =
  upgrade_name :: string
  upgrade_from :: "string option"
  upgrade_to :: string

text \<open>\<^verbatim>\<open>upgrade\<close> replaces no file. The model returns the version that its success
  message names: \<^verbatim>\<open>latest\<close> for the target \<^verbatim>\<open>"latest"\<close>, the target otherwise.\<close>

definition upgrade ::
  "(string \<Rightarrow> string) \<Rightarrow> tag_ref list response \<Rightarrow> branch list response
     \<Rightarrow> upgrade_options \<Rightarrow> error + string option" where
  "upgrade bold tagsResponse branchesResponse opts =
     (if upgrade_to opts = ''latest''
      then (case getVersions bold tagsResponse branchesResponse (upgrade_name opts) of
              Inl e \<Rightarrow> Inl e
            | Inr v \<Rightarrow> Inr (latest v))
      else Inr (Some (upgrade_to opts)))"

text \<open>
  The action of \<^verbatim>\<open>GithubUpgradeCommand\<close> works on the provider it was constructed
  with. The model takes the provider's two methods as parameters and returns, next to
  the outcome, the calls made on the provider, in order. \<open>force\<close> is \<open>False\<close> when the
  flag is not given.
\<close>

datatype call = IsOutdated_call string string string | Upgrade_call upgrade_options

definition run_upgrade ::
  "(upgrade_options \<Rightarrow> error + 'u) \<Rightarrow> call list \<Rightarrow> upgrade_options
     \<Rightarrow> call list \<times> (error + unit)" where
  "run_upgrade upgrade_m calls opts =
     (calls @ [Upgrade_call opts],
      case upgrade_m opts of Inl e \<Rightarrow> Inl e | Inr _ \<Rightarrow> Inr ())"

definition action ::
  "(string \<Rightarrow> string \<Rightarrow> string \<Rightarrow> error + bool) \<Rightarrow> (upgrade_options \<Rightarrow> error + 'u)
     \<Rightarrow> string \<Rightarrow> string option \<Rightarrow> string \<Rightarrow> bool \<Rightarrow> call list \<times> (error + unit)" where
  "action isOutdated_m upgrade_m nm currentVersion targetVersion force =
     (let opts = \<lparr> upgrade_name = nm, upgrade_from = currentVersion,
                   upgrade_to = targetVersion \<rparr>
      in if force then run_upgrade upgrade_m [] opts
         else case currentVersion of
           None \<Rightarrow> run_upgrade upgrade_m [] opts
         | Some cur \<Rightarrow>
             if cur = [] then run_upgrade upgrade_m [] opts
             else (case isOutdated_m nm cur targetVersion of
                     Inl e \<Rightarrow> ([IsOutdated_call nm cur targetVersion], Inl e)
                   | Inr outdated \<Rightarrow>
                       if outdated
                       then run_upgrade upgrade_m [IsOutdated_call nm cur targetVersion] opts
                       else ([IsOutdated_call nm cur targetVersion], Inr ())))"

section \<open>Printing version lists\<close>
















section \<open>Example inputs\<close>

text \<open>A colour helper when colours are switched off: it returns its argument.\<close>

definition plain :: "string \<Rightarrow> string" where
  "plain s = s"

text \<open>The repository of the end-to-end scenario: three tags, oldest first, a protected
  branch \<^verbatim>\<open>main\<close> and an unprotected branch \<^verbatim>\<open>dev\<close>.\<close>

definition example_tags :: "tag_ref list response" where
  "example_tags =
     ok [\<lparr>ref = ''refs/tags/v1.0''\<rparr>, \<lparr>ref = ''refs/tags/v1.1''\<rparr>, \<lparr>ref = ''refs/tags/v2.0''\<rparr>]"

definition example_branches :: "branch list response" where
  "example_branches =
     ok [\<lparr>name = ''main'', protected = True\<rparr>, \<lparr>name = ''dev'', protected = False\<rparr>]"

text \<open>A repository with one tag and an unprotected branch called \<^verbatim>\<open>latest\<close>.\<close>

definition one_tag :: "tag_ref list response" where
  "one_tag = ok [\<lparr>ref = ''refs/tags/v1.0''\<rparr>]"

definition latest_branch :: "branch list response" where
  "latest_branch = ok [\<lparr>name = ''latest'', protected = False\<rparr>]"

text \<open>A response without a status, and a response whose body is an error payload.\<close>

definition no_status :: "tag_ref list response" where
  "no_status = \<lparr> status = 0, body = Payload [] \<rparr>"

definition error_payload :: "tag_ref list response" where
  "error_payload =
     \<lparr> status = 200,
       body = Object [''message'' \<mapsto> ''couldn't fetch versions - try again after'',
                      ''documentation_url'' \<mapsto> ''sometime''] \<rparr>"

definition not_found :: "tag_ref list response" where
  "not_found =
     \<lparr> status = 404,
       body = Object [''message'' \<mapsto> ''Not Found'',
                      ''documentation_url'' \<mapsto> ''https://docs.github.com/rest''] \<rparr>"


text \<open>What \<^verbatim>\<open>getVersions\<close> returns for the scenario when colours are off.\<close>

definition example_versions :: github_versions where
  "example_versions =
     \<lparr> versions = [''v2.0'', ''v1.1'', ''v1.0'', ''main (Protected)'', ''dev ''],
       latest = Some ''v2.0'',
       tags = [''v2.0'', ''v1.1'', ''v1.0''],
       branches = [''main (Protected)'', ''dev ''] \<rparr>"


section \<open>Lemmas on fetching and the version lists\<close>

lemma gitFetch_ok: "gitFetch (ok d) = Inr (Payload d)"
  by (simp add: gitFetch_def ok_def)

lemma gitFetch_payload_body:
  "gitFetch r = Inr (Payload d) \<Longrightarrow> body r = Payload d"
  by (auto simp: gitFetch_def split: if_splits json.splits option.splits)


lemma insert_by_unprotected:
  "\<not> protected x \<Longrightarrow> insert_by branch_compare x ys = x # ys"
  by (cases ys) (simp_all add: branch_compare_def)

lemma insert_by_protected:
  assumes "protected x" "\<forall>y\<in>set us. \<not> protected y" "\<forall>y\<in>set ps. protected y"
  shows "insert_by branch_compare x (us @ ps) = us @ x # ps"
  using assms
proof (induction us)
  case Nil
  then show ?case by (cases ps) (simp_all add: branch_compare_def)
next
  case (Cons u us)
  then show ?case by (simp add: branch_compare_def)
qed

lemma js_sort_branches:
  "js_sort branch_compare bs = filter (\<lambda>b. \<not> protected b) bs @ filter protected bs"
proof (induction bs)
  case Nil
  show ?case by (simp add: js_sort_def)
next
  case (Cons b bs)
  have step: "js_sort branch_compare (b # bs) = insert_by branch_compare b (js_sort branch_compare bs)"
    by (simp add: js_sort_def)
  show ?case
  proof (cases "protected b")
    case True
    then show ?thesis
      unfolding step Cons.IH
      by (simp add: insert_by_protected)
  next
    case False
    then show ?thesis
      unfolding step Cons.IH
      by (simp add: insert_by_unprotected)
  qed
qed

lemma gitFetch_not_ValidationError: "gitFetch r \<noteq> Inl (ValidationError m)"
  by (auto simp: gitFetch_def split: json.splits option.splits)

lemma getVersions_not_ValidationError: "getVersions bold tr br nm \<noteq> Inl (ValidationError m)"
  using gitFetch_not_ValidationError[of tr m] gitFetch_not_ValidationError[of br m]
  by (auto simp: getVersions_def Let_def split: sum.splits json.splits)

lemma getVersions_Inr_iff:
  "getVersions bold tr br nm = Inr v \<longleftrightarrow>
     (\<exists>ts bs. gitFetch tr = Inr (Payload ts) \<and> gitFetch br = Inr (Payload bs) \<and>
        v = \<lparr> versions = rev (map (\<lambda>tag. strip_ref (ref tag)) ts) @ rev (map (branch_label bold) (js_sort branch_compare bs)),
               latest = (case rev (map (\<lambda>tag. strip_ref (ref tag)) ts) of [] \<Rightarrow> None | t # _ \<Rightarrow> Some t),
               tags = rev (map (\<lambda>tag. strip_ref (ref tag)) ts),
               branches = rev (map (branch_label bold) (js_sort branch_compare bs)) \<rparr>)"
  by (auto simp: getVersions_def Let_def split: sum.splits json.splits)

lemma getVersions_fields:
  assumes "getVersions bold tr br nm = Inr v"
  shows "versions v = tags v @ branches v"
    and "latest v = (case tags v of [] \<Rightarrow> None | t # _ \<Rightarrow> Some t)"
  using assms by (auto simp: getVersions_Inr_iff)

lemma getVersions_tags:
  assumes "getVersions bold tr br nm = Inr v" "body tr = Payload ts"
  shows "tags v = rev (map (\<lambda>tag. strip_ref (ref tag)) ts)"
  using assms by (auto simp: getVersions_Inr_iff dest: gitFetch_payload_body)

lemma getVersions_branches:
  assumes "getVersions bold tr br nm = Inr v" "body br = Payload bs"
  shows "branches v = rev (map (branch_label bold) (js_sort branch_compare bs))"
  using assms by (auto simp: getVersions_Inr_iff dest: gitFetch_payload_body)

lemma strip_ref_prefix: "strip_ref (''refs/tags/'' @ s) = s"
  by (simp add: strip_ref_def)

lemma label_has_space: "CHR '' '' \<in> set (branch_label bold b)"
  by (simp add: branch_label_def)

lemma branches_have_space:
  assumes "getVersions bold tr br nm = Inr v" "e \<in> set (branches v)"
  shows "CHR '' '' \<in> set e"
  using assms by (auto simp: getVersions_Inr_iff label_has_space)

lemma set_js_sort_branches: "set (js_sort branch_compare bs) = set bs"
  by (auto simp: js_sort_branches)

lemma isOutdated_Inr:
  assumes "getVersions bold tr br nm = Inr v"
  shows "isOutdated bold tr br nm cur tv =
     (let target = resolve_target v tv in
           if truthy target \<and> \<not> js_includes (versions v) target
             then Inl (ValidationError (case target of Some t \<Rightarrow> t | None \<Rightarrow> []))
           else if truthy (latest v) \<and> latest v = Some cur \<and> latest v = target
             then Inr False
           else if truthy target \<and> Some cur = target
             then Inr False
           else Inr True)"
  using assms by (simp add: isOutdated_def)

lemma isOutdated_Inl:
  assumes "getVersions bold tr br nm = Inl e"
  shows "isOutdated bold tr br nm cur tv = Inl e"
  using assms by (simp add: isOutdated_def)

section \<open>Lemmas on the table loops\<close>
















lemma example_getVersions:
  "getVersions plain example_tags example_branches ''app'' = Inr example_versions"
  by (simp add: getVersions_def gitFetch_ok example_tags_def example_branches_def
        example_versions_def js_sort_def branch_compare_def branch_label_def strip_ref_def
        plain_def Let_def)

section \<open>Claims\<close>

subsection \<open>C1: asking for the installed version\<close>

text \<open>
  C1, as amended. Let the two requests succeed and let \<open>v\<close> be a non-empty string.
  If \<open>v\<close> is not the word \<^verbatim>\<open>latest\<close> and is in the list of versions, then
  \<^verbatim>\<open>isOutdated(name, v, v)\<close> returns \<^verbatim>\<open>false\<close>. If \<open>v\<close> is the word \<^verbatim>\<open>latest\<close>,
  the target is replaced by the newest tag before the comparison, and the call returns
  \<^verbatim>\<open>false\<close> only when the newest tag is itself called \<^verbatim>\<open>latest\<close>; otherwise it
  returns \<^verbatim>\<open>true\<close>.
\<close>

theorem isOutdated_same_version:
  assumes "getVersions bold tr br nm = Inr vs" and "v \<noteq> []"
  shows "(v \<noteq> ''latest'' \<and> v \<in> set (versions vs) \<longrightarrow> isOutdated bold tr br nm v v = Inr False)
       \<and> (v = ''latest'' \<longrightarrow> isOutdated bold tr br nm v v = Inr (latest vs \<noteq> Some ''latest''))"
  using assms getVersions_fields[OF assms(1)]
  by (auto simp: isOutdated_Inr Let_def truthy_def js_includes_def resolve_target_def
           split: option.splits list.splits)

text \<open>The theorem at the scenario's repository, for the installed version \<^verbatim>\<open>v1.0\<close>.\<close>

theorem isOutdated_same_version_witness:
  "getVersions plain example_tags example_branches ''app'' = Inr example_versions
   \<and> ''v1.0'' \<noteq> [] \<and> ''v1.0'' \<noteq> ''latest'' \<and> ''v1.0'' \<in> set (versions example_versions)
   \<and> isOutdated plain example_tags example_branches ''app'' ''v1.0'' ''v1.0'' = Inr False"
proof -
  have h: "getVersions plain example_tags example_branches ''app'' = Inr example_versions"
    by (rule example_getVersions)
  have n: "''v1.0'' \<noteq> []" by simp
  have m: "''v1.0'' \<noteq> ''latest'' \<and> ''v1.0'' \<in> set (versions example_versions)"
    by (simp add: example_versions_def)
  from isOutdated_same_version[OF h n] h m show ?thesis by simp
qed

text \<open>C1 as stated fails for \<open>v\<close> the word \<^verbatim>\<open>latest\<close>: with the newest tag \<^verbatim>\<open>v2.0\<close>,
  a program whose version is \<^verbatim>\<open>latest\<close> and that asks for \<^verbatim>\<open>latest\<close> is reported
  as outdated.\<close>

theorem isOutdated_same_version_counterexample:
  "isOutdated plain example_tags example_branches ''app'' ''latest'' ''latest'' = Inr True"
  by (simp add: isOutdated_Inr[OF example_getVersions] example_versions_def Let_def
        truthy_def js_includes_def resolve_target_def)

subsection \<open>C2: the table of a long list\<close>




subsection \<open>C3: the order and the labels of the branches\<close>

text \<open>
  C3, as amended. \<^verbatim>\<open>getVersions\<close> sorts the unprotected branches before the
  protected ones, each group in its order of arrival, labels every branch, and reverses
  the list. The label of a protected branch is its name, a space and
  \<^verbatim>\<open>(Protected)\<close>, the word passed through the \<open>bold\<close> helper; the label of an
  unprotected branch is its name followed by the same space. For the branches
  \<^verbatim>\<open>main\<close> (protected) and \<^verbatim>\<open>dev\<close> (unprotected) the field \<^verbatim>\<open>branches\<close> is the
  label of \<^verbatim>\<open>main\<close> followed by \<^verbatim>\<open>dev\<close> with a trailing space.
\<close>

theorem branches_sorted_labelled_reversed:
  assumes "getVersions bold tr br nm = Inr v" and "body br = Payload bs"
  shows "js_sort branch_compare bs = filter (\<lambda>b. \<not> protected b) bs @ filter protected bs
       \<and> branches v = rev (map (branch_label bold)
                              (filter (\<lambda>b. \<not> protected b) bs @ filter protected bs))
       \<and> (\<forall>b. branch_label bold b =
                (if protected b then name b @ '' ('' @ bold ''Protected'' @ '')''
                 else name b @ '' ''))
       \<and> (bs = [\<lparr>name = ''main'', protected = True\<rparr>, \<lparr>name = ''dev'', protected = False\<rparr>]
            \<longrightarrow> branches v = [''main ('' @ bold ''Protected'' @ '')'', ''dev ''])"
proof -
  have s: "js_sort branch_compare bs = filter (\<lambda>b. \<not> protected b) bs @ filter protected bs"
    by (rule js_sort_branches)
  have b: "branches v = rev (map (branch_label bold)
                              (filter (\<lambda>b. \<not> protected b) bs @ filter protected bs))"
    using getVersions_branches[OF assms] by (simp only: s)
  have l: "\<forall>b. branch_label bold b =
                (if protected b then name b @ '' ('' @ bold ''Protected'' @ '')''
                 else name b @ '' '')"
    by (simp add: branch_label_def)
  have e: "bs = [\<lparr>name = ''main'', protected = True\<rparr>, \<lparr>name = ''dev'', protected = False\<rparr>]
            \<longrightarrow> branches v = [''main ('' @ bold ''Protected'' @ '')'', ''dev '']"
    unfolding b by (simp add: branch_label_def)
  from s b l e show ?thesis by blast
qed

text \<open>The theorem at the scenario's repository, with colours off.\<close>

theorem branches_sorted_labelled_reversed_witness:
  "getVersions plain example_tags example_branches ''app'' = Inr example_versions
   \<and> body example_branches =
       Payload [\<lparr>name = ''main'', protected = True\<rparr>, \<lparr>name = ''dev'', protected = False\<rparr>]
   \<and> branches example_versions = [''main (Protected)'', ''dev '']"
proof -
  have h: "getVersions plain example_tags example_branches ''app'' = Inr example_versions"
    by (rule example_getVersions)
  have b: "body example_branches =
       Payload [\<lparr>name = ''main'', protected = True\<rparr>, \<lparr>name = ''dev'', protected = False\<rparr>]"
    by (simp add: example_branches_def ok_def)
  from branches_sorted_labelled_reversed[OF h b] h b show ?thesis
    by (simp add: plain_def)
qed

text \<open>C3 as stated gives \<^verbatim>\<open>["main (Protected)", "dev"]\<close> for the scenario. The code's
  list ends in \<^verbatim>\<open>dev\<close> with a trailing space, so the two differ even with colours
  off.\<close>

theorem branches_sorted_labelled_reversed_counterexample:
  "map_sum id branches (getVersions plain example_tags example_branches ''app'')
     \<noteq> Inr [''main (Protected)'', ''dev'']"
  by (simp add: example_getVersions example_versions_def)

subsection \<open>C4: the tags\<close>

text \<open>
  C4. When \<^verbatim>\<open>getVersions\<close> returns for a tag response of \<open>N\<close> refs, its field
  \<^verbatim>\<open>tags\<close> has \<open>N\<close> elements and is the list of refs in reverse order, each with the
  prefix \<^verbatim>\<open>refs/tags/\<close> removed from its front.
\<close>

theorem tags_reversed_stripped:
  assumes "getVersions bold tr br nm = Inr v" and "body tr = Payload refs"
  shows "length (tags v) = length refs
       \<and> tags v = rev (map (\<lambda>t. strip_ref (ref t)) refs)
       \<and> (\<forall>s. strip_ref (''refs/tags/'' @ s) = s)"
  using getVersions_tags[OF assms] strip_ref_prefix by simp

theorem tags_reversed_stripped_witness:
  "getVersions plain example_tags example_branches ''app'' = Inr example_versions
   \<and> body example_tags =
       Payload [\<lparr>ref = ''refs/tags/v1.0''\<rparr>, \<lparr>ref = ''refs/tags/v1.1''\<rparr>, \<lparr>ref = ''refs/tags/v2.0''\<rparr>]
   \<and> length (tags example_versions) = 3
   \<and> tags example_versions = [''v2.0'', ''v1.1'', ''v1.0'']"
proof -
  have h: "getVersions plain example_tags example_branches ''app'' = Inr example_versions"
    by (rule example_getVersions)
  have b: "body example_tags =
       Payload [\<lparr>ref = ''refs/tags/v1.0''\<rparr>, \<lparr>ref = ''refs/tags/v1.1''\<rparr>, \<lparr>ref = ''refs/tags/v2.0''\<rparr>]"
    by (simp add: example_tags_def ok_def)
  from tags_reversed_stripped[OF h b] h b show ?thesis
    by (simp add: strip_ref_def)
qed

subsection \<open>C5: when the version check fails\<close>

text \<open>
  C5. \<^verbatim>\<open>isOutdated\<close> throws a \<^verbatim>\<open>ValidationError\<close> exactly when the versions were
  fetched and the resolved target is a non-empty string that is not in the fetched list
  of versions. The resolved target is \<^verbatim>\<open>latest\<close> when the target is the word
  \<^verbatim>\<open>latest\<close>, and the target otherwise. The error is about the resolved target. A
  resolved target that is empty or \<^verbatim>\<open>undefined\<close> passes by the check, and by the two
  checks after it: the call returns \<^verbatim>\<open>true\<close>.
\<close>

theorem isOutdated_ValidationError_iff:
  "((\<exists>m. isOutdated bold tr br nm cur tv = Inl (ValidationError m)) \<longleftrightarrow>
      (\<exists>v t. getVersions bold tr br nm = Inr v
         \<and> (if tv = ''latest'' then latest v else Some tv) = Some t
         \<and> t \<noteq> [] \<and> t \<notin> set (versions v)))
   \<and> (\<forall>v t. getVersions bold tr br nm = Inr v
         \<and> (if tv = ''latest'' then latest v else Some tv) = Some t
         \<and> t \<noteq> [] \<and> t \<notin> set (versions v)
       \<longrightarrow> isOutdated bold tr br nm cur tv = Inl (ValidationError t))
   \<and> (\<forall>v. getVersions bold tr br nm = Inr v
         \<and> ((if tv = ''latest'' then latest v else Some tv) = None
            \<or> (if tv = ''latest'' then latest v else Some tv) = Some [])
       \<longrightarrow> isOutdated bold tr br nm cur tv = Inr True)"
proof (cases "getVersions bold tr br nm")
  case (Inl e)
  then show ?thesis
    using getVersions_not_ValidationError[of bold tr br nm]
    by (auto simp: isOutdated_Inl)
next
  case (Inr v)
  have thrown: "isOutdated bold tr br nm cur tv = Inl (ValidationError t)"
    if "(if tv = ''latest'' then latest v else Some tv) = Some t" "t \<noteq> []"
       "t \<notin> set (versions v)" for t
    using that
    by (simp add: isOutdated_Inr[OF Inr] Let_def truthy_def js_includes_def resolve_target_def)
  have passed: "isOutdated bold tr br nm cur tv = Inr True"
    if "(if tv = ''latest'' then latest v else Some tv) = None
        \<or> (if tv = ''latest'' then latest v else Some tv) = Some []"
    using that
    by (cases "latest v")
       (auto simp: isOutdated_Inr[OF Inr] Let_def truthy_def js_includes_def resolve_target_def
             split: if_splits)
  have only: "\<exists>t. (if tv = ''latest'' then latest v else Some tv) = Some t
                \<and> t \<noteq> [] \<and> t \<notin> set (versions v)"
    if "isOutdated bold tr br nm cur tv = Inl (ValidationError m)" for m
    using that
    by (auto simp: isOutdated_Inr[OF Inr] Let_def truthy_def js_includes_def resolve_target_def
             split: if_splits option.splits)
  from thrown passed only Inr show ?thesis
    by (intro conjI iffI allI impI) (force+)
qed

text \<open>The theorem at the scenario's repository: an unknown target is refused; the target
  \<^verbatim>\<open>latest\<close> stands for the tag \<^verbatim>\<open>v2.0\<close> and is not refused, though the word
  \<^verbatim>\<open>latest\<close> is no version; and without tags the target \<^verbatim>\<open>latest\<close> passes by the
  check.\<close>

theorem isOutdated_ValidationError_iff_witness:
  "isOutdated plain example_tags example_branches ''app'' ''1.0'' ''doesnotexist''
     = Inl (ValidationError ''doesnotexist'')
   \<and> ''latest'' \<notin> set (versions example_versions)
   \<and> \<not> (\<exists>m. isOutdated plain example_tags example_branches ''app'' ''1.0'' ''latest''
              = Inl (ValidationError m))
   \<and> isOutdated plain (ok []) example_branches ''app'' ''1.0'' ''latest'' = Inr True"
proof -
  have h: "getVersions plain example_tags example_branches ''app'' = Inr example_versions"
    by (rule example_getVersions)
  have a: "(if ''doesnotexist'' = ''latest'' then latest example_versions
            else Some ''doesnotexist'') = Some ''doesnotexist''
           \<and> ''doesnotexist'' \<noteq> [] \<and> ''doesnotexist'' \<notin> set (versions example_versions)"
    by (simp add: example_versions_def)
  have 1: "isOutdated plain example_tags example_branches ''app'' ''1.0'' ''doesnotexist''
             = Inl (ValidationError ''doesnotexist'')"
    using isOutdated_ValidationError_iff[of plain example_tags example_branches "''app''"
            "''1.0''" "''doesnotexist''"] h a
    by blast
  have b: "''latest'' \<notin> set (versions example_versions)
           \<and> (if ''latest'' = ''latest'' then latest example_versions else Some ''latest'')
               = Some ''v2.0''
           \<and> ''v2.0'' \<in> set (versions example_versions)"
    by (simp add: example_versions_def)
  have 2: "\<not> (\<exists>m. isOutdated plain example_tags example_branches ''app'' ''1.0'' ''latest''
              = Inl (ValidationError m))"
    using isOutdated_ValidationError_iff[of plain example_tags example_branches "''app''"
            "''1.0''" "''latest''"] h b
    by auto
  have e: "getVersions plain (ok []) example_branches ''app''
     = Inr \<lparr> versions = [''main (Protected)'', ''dev ''], latest = None, tags = [],
             branches = [''main (Protected)'', ''dev ''] \<rparr>"
    by (simp add: getVersions_def gitFetch_ok example_branches_def js_sort_def
          branch_compare_def branch_label_def plain_def Let_def)
  have 3: "isOutdated plain (ok []) example_branches ''app'' ''1.0'' ''latest'' = Inr True"
    using isOutdated_ValidationError_iff[of plain "ok []" example_branches "''app''"
            "''1.0''" "''latest''"] e
    by simp
  from 1 2 3 b show ?thesis by simp
qed

subsection \<open>C6: the version set\<close>

text \<open>
  C6. In the value that \<^verbatim>\<open>getVersions\<close> returns, \<^verbatim>\<open>versions\<close> is \<^verbatim>\<open>tags\<close> followed
  by \<^verbatim>\<open>branches\<close>, so a name occurs in it as often as in the two lists together, and
  \<^verbatim>\<open>latest\<close> is the first element of \<^verbatim>\<open>tags\<close>; without tags it has no value
  (\<^verbatim>\<open>undefined\<close>).
\<close>

theorem versions_concat_latest_first:
  assumes "getVersions bold tr br nm = Inr v"
  shows "versions v = tags v @ branches v
       \<and> (\<forall>x. count_list (versions v) x = count_list (tags v) x + count_list (branches v) x)
       \<and> latest v = (case tags v of [] \<Rightarrow> None | t # _ \<Rightarrow> Some t)"
  using getVersions_fields[OF assms] by simp

theorem versions_concat_latest_first_witness:
  "getVersions plain example_tags example_branches ''app'' = Inr example_versions
   \<and> versions example_versions = tags example_versions @ branches example_versions
   \<and> latest example_versions = Some ''v2.0''"
proof -
  have h: "getVersions plain example_tags example_branches ''app'' = Inr example_versions"
    by (rule example_getVersions)
  have t: "tags example_versions = [''v2.0'', ''v1.1'', ''v1.0'']"
    by (simp add: example_versions_def)
  from versions_concat_latest_first[OF h] h t show ?thesis by simp
qed

subsection \<open>C7: the errors of fetching\<close>

text \<open>
  C7, as amended. \<^verbatim>\<open>gitFetch\<close> fails with a generic \<^verbatim>\<open>Error\<close> in both cases, and
  only the message tells them apart: the fixed message
  \<^verbatim>\<open>couldn't fetch versions - try again after sometime\<close> when the response has no
  status, and the payload's \<^verbatim>\<open>message\<close>, a space and its \<^verbatim>\<open>documentation_url\<close>
  when the body has both fields. Neither is a \<^verbatim>\<open>ValidationError\<close>, and
  \<^verbatim>\<open>getVersions\<close> fails with the error of the request that failed.
\<close>

theorem gitFetch_errors:
  "(status r = 0 \<longrightarrow> gitFetch r = Inl (Error fetch_failed_message))
   \<and> (status r \<noteq> 0 \<and> body r = Object obj \<and> obj ''message'' = Some m
        \<and> obj ''documentation_url'' = Some u
      \<longrightarrow> gitFetch r = Inl (Error (m @ '' '' @ u)))
   \<and> (\<forall>x. gitFetch r \<noteq> Inl (ValidationError x))
   \<and> (gitFetch tr = Inl e \<and> gitFetch br = Inr d' \<longrightarrow> getVersions bold tr br nm = Inl e)
   \<and> (gitFetch tr = Inr d \<and> gitFetch br = Inl e \<longrightarrow> getVersions bold tr br nm = Inl e)"
  using gitFetch_not_ValidationError[of r]
  by (auto simp: gitFetch_def getVersions_def)

theorem gitFetch_errors_witness:
  "status no_status = 0
   \<and> gitFetch no_status = Inl (Error ''couldn't fetch versions - try again after sometime'')
   \<and> getVersions plain no_status example_branches ''app''
       = Inl (Error ''couldn't fetch versions - try again after sometime'')
   \<and> status not_found \<noteq> 0
   \<and> gitFetch not_found = Inl (Error ''Not Found https://docs.github.com/rest'')"
proof -
  have a: "status no_status = 0" by (simp add: no_status_def)
  have b: "status not_found \<noteq> 0
           \<and> body not_found = Object [''message'' \<mapsto> ''Not Found'',
                      ''documentation_url'' \<mapsto> ''https://docs.github.com/rest'']
           \<and> [''message'' \<mapsto> ''Not Found'',
                      ''documentation_url'' \<mapsto> ''https://docs.github.com/rest''] ''message''
               = Some ''Not Found''
           \<and> [''message'' \<mapsto> ''Not Found'',
                      ''documentation_url'' \<mapsto> ''https://docs.github.com/rest''] ''documentation_url''
               = Some ''https://docs.github.com/rest''"
    by (simp add: not_found_def)
  have 1: "gitFetch no_status = Inl (Error fetch_failed_message)"
    using gitFetch_errors[of no_status] a by blast
  have g: "gitFetch example_branches
             = Inr (Payload [\<lparr>name = ''main'', protected = True\<rparr>, \<lparr>name = ''dev'', protected = False\<rparr>])"
    by (simp add: example_branches_def gitFetch_ok)
  have 2: "getVersions plain no_status example_branches ''app'' = Inl (Error fetch_failed_message)"
    using gitFetch_errors[where tr = no_status and e = "Error fetch_failed_message"
            and br = example_branches and bold = plain and nm = "''app''"] 1 g
    by blast
  have 3: "gitFetch not_found = Inl (Error (''Not Found'' @ '' '' @ ''https://docs.github.com/rest''))"
    using gitFetch_errors[of not_found] b by blast
  from a b 1 2 3 show ?thesis by (simp add: fetch_failed_message_def)
qed

text \<open>C7 as stated has two distinguishable kinds of error. A response without a status
  and a response whose payload happens to spell the fixed message make \<^verbatim>\<open>gitFetch\<close>
  fail with the same error.\<close>

theorem gitFetch_errors_counterexample:
  "gitFetch no_status = gitFetch error_payload"
  by (simp add: gitFetch_def no_status_def error_payload_def fetch_failed_message_def)

subsection \<open>C8: branches in the version check\<close>

text \<open>
  C8, as amended. The entry that \<^verbatim>\<open>branches\<close>, and so \<^verbatim>\<open>versions\<close>, holds for an
  unprotected branch is its name followed by a space. A name without a space, as every
  git ref name is, is no entry of \<^verbatim>\<open>branches\<close>. So \<^verbatim>\<open>isOutdated\<close> throws a
  \<^verbatim>\<open>ValidationError\<close> for a target that is the name of an unprotected branch, when the
  name is non-empty, has no space, is not the word \<^verbatim>\<open>latest\<close> and is no tag.
\<close>

theorem unprotected_branch_not_a_version:
  assumes "getVersions bold tr br nm = Inr v" and "body br = Payload bs"
    and "b \<in> set bs" and "\<not> protected b"
  shows "name b @ '' '' \<in> set (branches v) \<and> name b @ '' '' \<in> set (versions v)
       \<and> (CHR '' '' \<notin> set (name b) \<longrightarrow> name b \<notin> set (branches v))
       \<and> (name b \<noteq> [] \<and> name b \<noteq> ''latest'' \<and> CHR '' '' \<notin> set (name b) \<and> name b \<notin> set (tags v)
            \<longrightarrow> isOutdated bold tr br nm cur (name b) = Inl (ValidationError (name b)))"
proof -
  have lab: "branch_label bold b = name b @ '' ''"
    using assms(4) by (simp add: branch_label_def)
  have br: "branches v = rev (map (branch_label bold) (js_sort branch_compare bs))"
    using assms(1,2) by (rule getVersions_branches)
  have "branch_label bold b \<in> set (branches v)"
    unfolding br using assms(3) by (simp add: set_js_sort_branches)
  then have 1: "name b @ '' '' \<in> set (branches v)" by (simp add: lab)
  have vs: "versions v = tags v @ branches v"
    using assms(1) by (rule getVersions_fields)
  have 2: "CHR '' '' \<notin> set (name b) \<Longrightarrow> name b \<notin> set (branches v)"
    using branches_have_space[OF assms(1)] by blast
  show ?thesis
    using 1 2 vs
    by (auto simp: isOutdated_Inr[OF assms(1)] Let_def truthy_def js_includes_def resolve_target_def)
qed


theorem unprotected_branch_not_a_version_witness:
  "getVersions plain example_tags example_branches ''app'' = Inr example_versions
   \<and> \<lparr>name = ''dev'', protected = False\<rparr> \<in> set [\<lparr>name = ''main'', protected = True\<rparr>, \<lparr>name = ''dev'', protected = False\<rparr>]
   \<and> ''dev '' \<in> set (versions example_versions)
   \<and> isOutdated plain example_tags example_branches ''app'' ''v1.0'' ''dev''
       = Inl (ValidationError ''dev'')"
proof -
  have h: "getVersions plain example_tags example_branches ''app'' = Inr example_versions"
    by (rule example_getVersions)
  have b: "body example_branches =
       Payload [\<lparr>name = ''main'', protected = True\<rparr>, \<lparr>name = ''dev'', protected = False\<rparr>]"
    by (simp add: example_branches_def ok_def)
  have i: "\<lparr>name = ''dev'', protected = False\<rparr>
             \<in> set [\<lparr>name = ''main'', protected = True\<rparr>, \<lparr>name = ''dev'', protected = False\<rparr>]"
    by simp
  have p: "\<not> protected \<lparr>name = ''dev'', protected = False\<rparr>" by simp
  have t: "''dev'' \<notin> set (tags example_versions)" by (simp add: example_versions_def)
  from unprotected_branch_not_a_version[OF h b i p, of "''v1.0''"] h i t show ?thesis by simp
qed

text \<open>C8 as stated fails for an unprotected branch called \<^verbatim>\<open>latest\<close> that is no tag:
  the target \<^verbatim>\<open>latest\<close> is replaced by the newest tag, and nothing is thrown.\<close>

theorem unprotected_branch_not_a_version_counterexample:
  "isOutdated plain one_tag latest_branch ''app'' ''v0.9'' ''latest'' = Inr True"
  by (simp add: isOutdated_def getVersions_def gitFetch_ok one_tag_def latest_branch_def
        js_sort_def branch_compare_def branch_label_def strip_ref_def Let_def
        truthy_def js_includes_def resolve_target_def)

subsection \<open>C9: a repository without tags\<close>

text \<open>
  C9. When the repository has no tags, \<^verbatim>\<open>latest\<close> is \<^verbatim>\<open>undefined\<close>, the target
  \<^verbatim>\<open>"latest"\<close> resolves to \<^verbatim>\<open>undefined\<close>, which is falsy, so neither the check for
  existence nor the two checks for an installed version apply, and \<^verbatim>\<open>isOutdated\<close>
  returns \<^verbatim>\<open>true\<close> whatever the current version.
\<close>

theorem isOutdated_without_tags:
  assumes "getVersions bold tr br nm = Inr v" and "tags v = []"
  shows "latest v = None \<and> resolve_target v ''latest'' = None
       \<and> \<not> truthy (resolve_target v ''latest'') \<and> \<not> truthy (latest v)
       \<and> isOutdated bold tr br nm cur ''latest'' = Inr True"
  using assms getVersions_fields[OF assms(1)]
  by (auto simp: isOutdated_Inr Let_def truthy_def js_includes_def resolve_target_def)

theorem isOutdated_without_tags_witness:
  "getVersions plain (ok []) example_branches ''app''
     = Inr \<lparr> versions = [''main (Protected)'', ''dev ''], latest = None, tags = [],
             branches = [''main (Protected)'', ''dev ''] \<rparr>
   \<and> isOutdated plain (ok []) example_branches ''app'' ''v1.0'' ''latest'' = Inr True"
proof -
  have h: "getVersions plain (ok []) example_branches ''app''
     = Inr \<lparr> versions = [''main (Protected)'', ''dev ''], latest = None, tags = [],
             branches = [''main (Protected)'', ''dev ''] \<rparr>"
    by (simp add: getVersions_def gitFetch_ok example_branches_def js_sort_def
          branch_compare_def branch_label_def plain_def Let_def)
  from isOutdated_without_tags[OF h, of "''v1.0''"] h show ?thesis by simp
qed

subsection \<open>C10: the calls of the command's action\<close>

text \<open>
  C10. When the force flag is set or there is no current version, the action calls
  \<^verbatim>\<open>upgrade\<close> and nothing else: its outcome is the outcome of \<^verbatim>\<open>upgrade\<close> on the
  request, and it is the same whatever \<^verbatim>\<open>isOutdated\<close> would do. \<^verbatim>\<open>isOutdated\<close> is
  called exactly when the flag is unset and a current version exists, once and first.
  Its error is the action's error. \<^verbatim>\<open>upgrade\<close> follows exactly when \<^verbatim>\<open>isOutdated\<close>
  returned \<^verbatim>\<open>true\<close>, and then the outcome is the outcome of \<^verbatim>\<open>upgrade\<close>; when
  \<^verbatim>\<open>isOutdated\<close> returned \<^verbatim>\<open>false\<close> or threw, the action is the same whatever
  \<^verbatim>\<open>upgrade\<close> would do.
\<close>

theorem action_calls:
  "(force \<or> \<not> truthy cur \<longrightarrow>
      fst (action is_outdated upgr nm cur tv force)
        = [Upgrade_call \<lparr>upgrade_name = nm, upgrade_from = cur, upgrade_to = tv\<rparr>])
   \<and> ((\<exists>a b c. IsOutdated_call a b c \<in> set (fst (action is_outdated upgr nm cur tv force)))
        \<longleftrightarrow> \<not> force \<and> truthy cur)
   \<and> (\<not> force \<and> truthy cur \<longrightarrow>
        (\<exists>c. cur = Some c \<and>
           fst (action is_outdated upgr nm cur tv force)
             = (if is_outdated nm c tv = Inr True
                then [IsOutdated_call nm c tv,
                      Upgrade_call \<lparr>upgrade_name = nm, upgrade_from = cur, upgrade_to = tv\<rparr>]
                else [IsOutdated_call nm c tv])))
   \<and> (force \<or> \<not> truthy cur \<longrightarrow>
        snd (action is_outdated upgr nm cur tv force)
          = (case upgr \<lparr>upgrade_name = nm, upgrade_from = cur, upgrade_to = tv\<rparr> of
               Inl e \<Rightarrow> Inl e | Inr x \<Rightarrow> Inr ())
        \<and> action is_outdated upgr nm cur tv force = action is_outdated' upgr nm cur tv force)
   \<and> (\<not> force \<and> truthy cur \<longrightarrow>
        (\<exists>c. cur = Some c \<and>
           snd (action is_outdated upgr nm cur tv force)
             = (case is_outdated nm c tv of
                  Inl e \<Rightarrow> Inl e
                | Inr outdated \<Rightarrow>
                    if outdated
                    then (case upgr \<lparr>upgrade_name = nm, upgrade_from = cur, upgrade_to = tv\<rparr> of
                            Inl e \<Rightarrow> Inl e | Inr x \<Rightarrow> Inr ())
                    else Inr ()) \<and>
           (is_outdated nm c tv \<noteq> Inr True \<longrightarrow>
              action is_outdated upgr nm cur tv force = action is_outdated upgr' nm cur tv force)))"
proof (cases "force \<or> \<not> truthy cur")
  case True
  have run: "action io upgr nm cur tv force
      = run_upgrade upgr [] \<lparr>upgrade_name = nm, upgrade_from = cur, upgrade_to = tv\<rparr>" for io
    using True by (auto simp: action_def truthy_def Let_def split: option.splits)
  have same: "action is_outdated upgr nm cur tv force = action is_outdated' upgr nm cur tv force"
    by (simp only: run)
  from True same show ?thesis
    by (auto simp: run run_upgrade_def)
next
  case False
  then obtain c where c: "cur = Some c" "c \<noteq> []" and f: "\<not> force"
    by (auto simp: truthy_def split: option.splits)
  have act: "action is_outdated u nm cur tv force
      = (case is_outdated nm c tv of
           Inl e \<Rightarrow> ([IsOutdated_call nm c tv], Inl e)
         | Inr outdated \<Rightarrow>
             if outdated
             then run_upgrade u [IsOutdated_call nm c tv]
                    \<lparr>upgrade_name = nm, upgrade_from = cur, upgrade_to = tv\<rparr>
             else ([IsOutdated_call nm c tv], Inr ()))" for u
    unfolding c(1) using c(2) f by (simp add: action_def Let_def)
  have calls: "fst (action is_outdated upgr nm cur tv force)
             = (if is_outdated nm c tv = Inr True
                then [IsOutdated_call nm c tv,
                      Upgrade_call \<lparr>upgrade_name = nm, upgrade_from = cur, upgrade_to = tv\<rparr>]
                else [IsOutdated_call nm c tv])"
    unfolding act by (cases "is_outdated nm c tv") (simp_all add: run_upgrade_def)
  have called: "\<exists>a b d. IsOutdated_call a b d \<in> set (fst (action is_outdated upgr nm cur tv force))"
    unfolding calls by (cases "is_outdated nm c tv = Inr True") auto
  have outcome: "snd (action is_outdated upgr nm cur tv force)
             = (case is_outdated nm c tv of
                  Inl e \<Rightarrow> Inl e
                | Inr outdated \<Rightarrow>
                    if outdated
                    then (case upgr \<lparr>upgrade_name = nm, upgrade_from = cur, upgrade_to = tv\<rparr> of
                            Inl e \<Rightarrow> Inl e | Inr x \<Rightarrow> Inr ())
                    else Inr ())"
    unfolding act by (cases "is_outdated nm c tv") (simp_all add: run_upgrade_def)
  have indep: "is_outdated nm c tv \<noteq> Inr True \<longrightarrow>
              action is_outdated upgr nm cur tv force = action is_outdated upgr' nm cur tv force"
    unfolding act by (cases "is_outdated nm c tv") simp_all
  from False c calls called outcome indep show ?thesis
    by simp
qed

text \<open>The theorem at the scenario's repository. An installed \<^verbatim>\<open>v1.0\<close> is outdated and
  \<^verbatim>\<open>upgrade\<close> follows; an installed \<^verbatim>\<open>v2.0\<close> is not, and the action ends without
  \<^verbatim>\<open>upgrade\<close>; an unknown target ends the action with the error of \<^verbatim>\<open>isOutdated\<close>;
  with the force flag the action fails with the error of an \<^verbatim>\<open>upgrade\<close> whose request
  for the tags has no status.\<close>

theorem action_calls_witness:
  "truthy (Some ''v1.0'')
   \<and> action (isOutdated plain example_tags example_branches)
        (upgrade plain example_tags example_branches) ''app'' (Some ''v1.0'') ''latest'' False
       = ([IsOutdated_call ''app'' ''v1.0'' ''latest'',
           Upgrade_call \<lparr>upgrade_name = ''app'', upgrade_from = Some ''v1.0'', upgrade_to = ''latest''\<rparr>],
          Inr ())
   \<and> action (isOutdated plain example_tags example_branches)
        (upgrade plain example_tags example_branches) ''app'' (Some ''v2.0'') ''latest'' False
       = ([IsOutdated_call ''app'' ''v2.0'' ''latest''], Inr ())
   \<and> action (isOutdated plain example_tags example_branches)
        (upgrade plain example_tags example_branches) ''app'' (Some ''v2.0'') ''nightly'' False
       = ([IsOutdated_call ''app'' ''v2.0'' ''nightly''], Inl (ValidationError ''nightly''))
   \<and> action (isOutdated plain example_tags example_branches)
        (upgrade plain no_status example_branches) ''app'' (Some ''v2.0'') ''latest'' True
       = ([Upgrade_call \<lparr>upgrade_name = ''app'', upgrade_from = Some ''v2.0'', upgrade_to = ''latest''\<rparr>],
          Inl (Error fetch_failed_message))"
proof -
  have t: "truthy (Some ''v1.0'')" "truthy (Some ''v2.0'')" by (simp_all add: truthy_def)
  have o1: "isOutdated plain example_tags example_branches ''app'' ''v1.0'' ''latest'' = Inr True"
    by (simp add: isOutdated_Inr[OF example_getVersions] example_versions_def Let_def
          truthy_def js_includes_def resolve_target_def)
  have o2: "isOutdated plain example_tags example_branches ''app'' ''v2.0'' ''latest'' = Inr False"
    by (simp add: isOutdated_Inr[OF example_getVersions] example_versions_def Let_def
          truthy_def js_includes_def resolve_target_def)
  have o3: "isOutdated plain example_tags example_branches ''app'' ''v2.0'' ''nightly''
              = Inl (ValidationError ''nightly'')"
    by (simp add: isOutdated_Inr[OF example_getVersions] example_versions_def Let_def
          truthy_def js_includes_def resolve_target_def)
  have u1: "upgrade plain example_tags example_branches
              \<lparr>upgrade_name = ''app'', upgrade_from = Some ''v1.0'', upgrade_to = ''latest''\<rparr>
            = Inr (Some ''v2.0'')"
    by (simp add: upgrade_def example_getVersions example_versions_def)
  have g: "getVersions plain no_status example_branches ''app'' = Inl (Error fetch_failed_message)"
    by (simp add: getVersions_def gitFetch_def no_status_def example_branches_def ok_def)
  have u2: "upgrade plain no_status example_branches
              \<lparr>upgrade_name = ''app'', upgrade_from = Some ''v2.0'', upgrade_to = ''latest''\<rparr>
            = Inl (Error fetch_failed_message)"
    by (simp add: upgrade_def g)
  have 1: "action (isOutdated plain example_tags example_branches)
        (upgrade plain example_tags example_branches) ''app'' (Some ''v1.0'') ''latest'' False
       = ([IsOutdated_call ''app'' ''v1.0'' ''latest'',
           Upgrade_call \<lparr>upgrade_name = ''app'', upgrade_from = Some ''v1.0'', upgrade_to = ''latest''\<rparr>],
          Inr ())"
    using action_calls[where force = False and cur = "Some ''v1.0''"
           and is_outdated = "isOutdated plain example_tags example_branches"
           and is_outdated' = "isOutdated plain example_tags example_branches"
           and upgr = "upgrade plain example_tags example_branches" and upgr' = "upgrade plain example_tags example_branches"
           and nm = "''app''" and tv = "''latest''"] t o1 u1
    by (intro prod_eqI) simp_all
  have 2: "action (isOutdated plain example_tags example_branches)
        (upgrade plain example_tags example_branches) ''app'' (Some ''v2.0'') ''latest'' False
       = ([IsOutdated_call ''app'' ''v2.0'' ''latest''], Inr ())"
    using action_calls[where force = False and cur = "Some ''v2.0''"
           and is_outdated = "isOutdated plain example_tags example_branches"
           and is_outdated' = "isOutdated plain example_tags example_branches"
           and upgr = "upgrade plain example_tags example_branches" and upgr' = "upgrade plain example_tags example_branches"
           and nm = "''app''" and tv = "''latest''"] t o2
    by (intro prod_eqI) simp_all
  have 3: "action (isOutdated plain example_tags example_branches)
        (upgrade plain example_tags example_branches) ''app'' (Some ''v2.0'') ''nightly'' False
       = ([IsOutdated_call ''app'' ''v2.0'' ''nightly''], Inl (ValidationError ''nightly''))"
    using action_calls[where force = False and cur = "Some ''v2.0''"
           and is_outdated = "isOutdated plain example_tags example_branches"
           and is_outdated' = "isOutdated plain example_tags example_branches"
           and upgr = "upgrade plain example_tags example_branches" and upgr' = "upgrade plain example_tags example_branches"
           and nm = "''app''" and tv = "''nightly''"] t o3
    by (intro prod_eqI) simp_all
  have 4: "action (isOutdated plain example_tags example_branches)
        (upgrade plain no_status example_branches) ''app'' (Some ''v2.0'') ''latest'' True
       = ([Upgrade_call \<lparr>upgrade_name = ''app'', upgrade_from = Some ''v2.0'', upgrade_to = ''latest''\<rparr>],
          Inl (Error fetch_failed_message))"
    using action_calls[where force = True and cur = "Some ''v2.0''"
           and is_outdated = "isOutdated plain example_tags example_branches"
           and is_outdated' = "isOutdated plain example_tags example_branches"
           and upgr = "upgrade plain no_status example_branches" and upgr' = "upgrade plain no_status example_branches"
           and nm = "''app''" and tv = "''latest''"] u2
    by (intro prod_eqI) simp_all
  from t 1 2 3 4 show ?thesis by simp
qed

end
